theory Spec2Isabelle
  imports Complex_Main
begin

section \<open>Strings, characters and exceptions\<close>

text \<open>
  The backend is Python: a \<open>str\<close> is a sequence of Unicode code points and \<open>len\<close> counts
  code points. The response templates contain an em dash (U+2014), so a string is modelled
  as a list of code points (natural numbers), not as a list of 8-bit characters.
  \<open>str\<close> turns an ASCII literal into such a list.
\<close>

type_synonym ustr = "nat list"

definition str :: "string \<Rightarrow> ustr" where
  "str s = map of_char s"

text \<open>The exceptions that the modelled code raises or lets through.\<close>

datatype exn =
    ValueError string
  | JSONDecodeError
  | AttributeError
  | RecursionError
  | APIError

text \<open>
  \<open>except (json.JSONDecodeError, ValueError)\<close>: \<open>JSONDecodeError\<close> is a subclass of
  \<open>ValueError\<close>; the other exceptions pass through that clause.
\<close>

fun is_ValueError :: "exn \<Rightarrow> bool" where
  "is_ValueError (ValueError m) = True"
| "is_ValueError JSONDecodeError = True"
| "is_ValueError AttributeError = False"
| "is_ValueError RecursionError = False"
| "is_ValueError APIError = False"

text \<open>
  \<open>str.isspace\<close> for one code point, which is also what \<open>str.strip()\<close> removes and what
  \<open>\s\<close> matches in a \<open>str\<close> pattern.
\<close>

definition isspace :: "nat \<Rightarrow> bool" where
  "isspace c \<longleftrightarrow>
     (9 \<le> c \<and> c \<le> 13) \<or> (28 \<le> c \<and> c \<le> 32) \<or> c = 133 \<or> c = 160 \<or> c = 5760
     \<or> (8192 \<le> c \<and> c \<le> 8202) \<or> c = 8232 \<or> c = 8233 \<or> c = 8239 \<or> c = 8287
     \<or> c = 12288"

definition strip :: "ustr \<Rightarrow> ustr" where
  "strip s = rev (dropWhile isspace (rev (dropWhile isspace s)))"

text \<open>
  \<open>str.lower()\<close>. The only code points whose lower-case form contains an ASCII character
  are \<open>A\<close>..\<open>Z\<close>, U+0130 (which becomes \<open>i\<close> followed by U+0307) and the Kelvin sign
  U+212A (which becomes \<open>k\<close>). Every other code point above U+007F is mapped by Python to
  code points above U+007F; it is kept as it is here, which gives the same answer to every
  test of the lower-cased text against an ASCII keyword, the only use the code makes of it.
\<close>

definition lower_cp :: "nat \<Rightarrow> ustr" where
  "lower_cp c =
     (if 65 \<le> c \<and> c \<le> 90 then [c + 32]
      else if c = 304 then [105, 775]
      else if c = 8490 then [107]
      else [c])"

definition lower :: "ustr \<Rightarrow> ustr" where
  "lower s = concat (map lower_cp s)"

text \<open>The operator \<open>word in text\<close> on strings: \<open>word\<close> occurs as a contiguous part.\<close>

fun starts_with :: "ustr \<Rightarrow> ustr \<Rightarrow> bool" where
  "starts_with [] s = True"
| "starts_with (a # w) [] = False"
| "starts_with (a # w) (c # s) = (a = c \<and> starts_with w s)"

fun contains :: "ustr \<Rightarrow> ustr \<Rightarrow> bool" where
  "contains w [] = (w = [])"
| "contains w (c # s) = (starts_with w (c # s) \<or> contains w s)"

text \<open>\<open>any(word in text for word in words)\<close>.\<close>

definition any_in :: "string list \<Rightarrow> ustr \<Rightarrow> bool" where
  "any_in words text = list_ex (\<lambda>w. contains (str w) text) words"

text \<open>\<open>text.split('\n')\<close>: the pieces between line feeds; never an empty list.\<close>

fun split_lines :: "ustr \<Rightarrow> ustr list" where
  "split_lines [] = [[]]"
| "split_lines (c # s) =
     (if c = 10 then [] # split_lines s
      else (case split_lines s of
              l # ls \<Rightarrow> (c # l) # ls
            | [] \<Rightarrow> [[c]]))"

section \<open>Regular expressions searched with \<open>re.IGNORECASE\<close>\<close>

text \<open>
  The patterns of the denylist use literals, \<open>.\<close>, \<open>\s\<close>, \<open>*\<close> and \<open>+\<close> only. A pattern
  is a list of pieces; \<open>re.search\<close> is used for its truth value, so all that matters is
  whether the pattern matches somewhere, which backtracking over every split decides.
\<close>

datatype atom = Lit nat | AnyChar | Space

datatype piece = One atom | Star atom | Plus atom

text \<open>
  The regex engine lower-cases the subject character with the simple (one to one) mapping:
  it sends \<open>A\<close>..\<open>Z\<close>, U+0130 and U+212A to ASCII letters and nothing else. A literal
  \<open>i\<close> or \<open>s\<close> also accepts its equivalents U+0131 and U+017F.
\<close>

definition sre_lower :: "nat \<Rightarrow> nat" where
  "sre_lower c =
     (if 65 \<le> c \<and> c \<le> 90 then c + 32
      else if c = 304 then 105
      else if c = 8490 then 107
      else c)"

definition ignorecase_fixes :: "nat \<Rightarrow> nat list" where
  "ignorecase_fixes p = (if p = 105 then [305] else if p = 115 then [383] else [])"

fun atom_matches :: "atom \<Rightarrow> nat \<Rightarrow> bool" where
  "atom_matches (Lit p) c = (sre_lower c \<in> set (sre_lower p # ignorecase_fixes (sre_lower p)))"
| "atom_matches AnyChar c = (c \<noteq> 10)"
| "atom_matches Space c = isspace c"

text \<open>\<open>match_here p s\<close>: the pattern matches a prefix of \<open>s\<close>.\<close>

fun match_here :: "piece list \<Rightarrow> ustr \<Rightarrow> bool" where
  "match_here [] s = True"
| "match_here (One a # ps) [] = False"
| "match_here (One a # ps) (c # s) = (atom_matches a c \<and> match_here ps s)"
| "match_here (Star a # ps) [] = match_here ps []"
| "match_here (Star a # ps) (c # s) =
     (match_here ps (c # s) \<or> (atom_matches a c \<and> match_here (Star a # ps) s))"
| "match_here (Plus a # ps) [] = False"
| "match_here (Plus a # ps) (c # s) = (atom_matches a c \<and> match_here (Star a # ps) s)"

fun re_search :: "piece list \<Rightarrow> ustr \<Rightarrow> bool" where
  "re_search p [] = match_here p []"
| "re_search p (c # s) = (match_here p (c # s) \<or> re_search p s)"

definition lits :: "string \<Rightarrow> piece list" where
  "lits s = map (\<lambda>c. One (Lit (of_char c))) s"

section \<open>Request validation (\<open>MenuItemRequest\<close>)\<close>

text \<open>The tag-shape pattern \<open><.*>\<close>.\<close>

definition tag_pattern :: "piece list" where
  "tag_pattern = [One (Lit 60), Star AnyChar, One (Lit 62)]"

text \<open>
  \<open>suspicious_patterns\<close>: \<open>script\<close>, \<open>javascript\<close>, \<open><.*>\<close>, \<open>http://\<close>, \<open>https://\<close>,
  \<open>exec\(\<close>, \<open>eval\(\<close>, \<open>system\(\<close>, \<open>import\s+os\<close>.
\<close>

definition suspicious_patterns :: "piece list list" where
  "suspicious_patterns =
     [lits ''script'', lits ''javascript'', tag_pattern, lits ''http://'', lits ''https://'',
      lits ''exec('', lits ''eval('', lits ''system('',
      lits ''import'' @ [Plus Space] @ lits ''os'']"

text \<open>\<open>re.sub(r'[<>"\']', '', text)\<close>: the four characters are removed.\<close>

definition forbidden :: "nat \<Rightarrow> bool" where
  "forbidden c \<longleftrightarrow> c = 60 \<or> c = 62 \<or> c = 34 \<or> c = 39"

definition sanitize :: "ustr \<Rightarrow> ustr" where
  "sanitize v = filter (\<lambda>c. \<not> forbidden c) (strip v)"

text \<open>
  \<open>validate_item_name\<close>, with the list of patterns as a parameter so that the validator
  can be compared with the one that has a shorter list.
\<close>

definition validate_item_name_with :: "piece list list \<Rightarrow> ustr \<Rightarrow> exn + ustr" where
  "validate_item_name_with patterns v =
     (if v = [] \<or> strip v = [] then Inl (ValueError ''Item name cannot be empty'')
      else let sanitized = sanitize v in
        if length sanitized > 100 then Inl (ValueError ''Item name too long (max 100 characters)'')
        else if list_ex (\<lambda>pattern. re_search pattern sanitized) patterns
          then Inl (ValueError ''Invalid characters detected in item name'')
        else Inr sanitized)"

definition validate_item_name :: "ustr \<Rightarrow> exn + ustr" where
  "validate_item_name v = validate_item_name_with suspicious_patterns v"

definition allowed_models :: "ustr list" where
  "allowed_models = [str ''gpt-3.5-turbo'', str ''gpt-4'', str ''gpt-4-turbo'']"

text \<open>
  \<open>validate_gpt_model\<close>; the field is \<open>Optional[str]\<close>, so the value may be \<open>None\<close>, which
  is not in the list either.
\<close>

definition validate_gpt_model :: "ustr option \<Rightarrow> ustr" where
  "validate_gpt_model v =
     (case v of
        None \<Rightarrow> str ''gpt-3.5-turbo''
      | Some m \<Rightarrow> if m \<notin> set allowed_models then str ''gpt-3.5-turbo'' else m)"

text \<open>
  The request body as it arrives, and the validated \<open>MenuItemRequest\<close>. A field left out
  of the body takes its default (\<open>False\<close>, \<open>gpt-3.5-turbo\<close>), which for both fields is what
  an explicit \<open>null\<close> leads to as well: \<open>None\<close> stands for either.
\<close>

record raw_request =
  raw_item_name :: ustr
  raw_simulate :: "bool option"
  raw_gpt_model :: "ustr option"

record MenuItemRequest =
  item_name :: ustr
  simulate :: bool
  gpt_model :: ustr

definition parse_request :: "raw_request \<Rightarrow> exn + MenuItemRequest" where
  "parse_request r =
     (case validate_item_name (raw_item_name r) of
        Inl e \<Rightarrow> Inl e
      | Inr name \<Rightarrow>
          Inr \<lparr>item_name = name,
               simulate = (case raw_simulate r of None \<Rightarrow> False | Some b \<Rightarrow> b),
               gpt_model = validate_gpt_model (raw_gpt_model r)\<rparr>)"

section \<open>Rate limiting\<close>

text \<open>
  \<open>rate_limit_store\<close> is a dictionary from client address to the list of the times of its
  admitted requests. \<open>time.time()\<close> is an argument (\<open>current_time\<close>); times are taken as
  real numbers.
\<close>

type_synonym store = "ustr \<rightharpoonup> real list"

definition check_rate_limit :: "ustr \<Rightarrow> int \<Rightarrow> int \<Rightarrow> real \<Rightarrow> store \<Rightarrow> bool \<times> store" where
  "check_rate_limit client_ip limit window current_time st =
     (let st1 = (if client_ip \<notin> dom st then st(client_ip \<mapsto> []) else st);
          recent = filter (\<lambda>req_time. current_time - req_time < real_of_int window)
                     (the (st1 client_ip));
          st2 = st1(client_ip \<mapsto> recent)
      in if int (length recent) \<ge> limit then (False, st2)
         else (True, st2(client_ip \<mapsto> recent @ [current_time])))"

text \<open>
  A sequence of calls with the same limit and window, each with its client and its clock
  reading, from a given store: the answers in order, and the store at the end.
\<close>

fun run_calls :: "int \<Rightarrow> int \<Rightarrow> (ustr \<times> real) list \<Rightarrow> store \<Rightarrow> bool list \<times> store" where
  "run_calls limit window [] st = ([], st)"
| "run_calls limit window ((c, t) # calls) st =
     (let (ok, st') = check_rate_limit c limit window t st;
          (oks, st'') = run_calls limit window calls st'
      in (ok # oks, st''))"

section \<open>Repairing the model's answer (\<open>PromptEngineer.validate_ai_response\<close>)\<close>

text \<open>
  What \<open>json.loads\<close> can return: \<open>None\<close>, a bool, an int, a float, a \<open>str\<close>, a list or a
  dict. A dict is an association list read with \<open>map_of\<close>. A float is the number it
  denotes, an infinity or a NaN; only whether it is zero matters below.
\<close>

datatype pyfloat = Finite real | Infinite | NaN

datatype json =
    JNull
  | JBool bool
  | JInt int
  | JFloat pyfloat
  | JString ustr
  | JArray "json list"
  | JObject "(ustr \<times> json) list"

text \<open>Python's truth value of such a value (\<open>not x\<close> is its negation).\<close>

fun truthy :: "json \<Rightarrow> bool" where
  "truthy JNull = False"
| "truthy (JBool b) = b"
| "truthy (JInt i) = (i \<noteq> 0)"
| "truthy (JFloat f) = (f \<noteq> Finite 0)"
| "truthy (JString s) = (s \<noteq> [])"
| "truthy (JArray xs) = (xs \<noteq> [])"
| "truthy (JObject kvs) = (kvs \<noteq> [])"

text \<open>\<open>parsed.get(key)\<close>: only a dict has the method; a missing key gives \<open>None\<close>.\<close>

fun dict_get :: "json \<Rightarrow> ustr \<Rightarrow> exn + json" where
  "dict_get (JObject kvs) key = Inr (case map_of kvs key of None \<Rightarrow> JNull | Some v \<Rightarrow> v)"
| "dict_get JNull key = Inl AttributeError"
| "dict_get (JBool b) key = Inl AttributeError"
| "dict_get (JInt i) key = Inl AttributeError"
| "dict_get (JFloat f) key = Inl AttributeError"
| "dict_get (JString s) key = Inl AttributeError"
| "dict_get (JArray xs) key = Inl AttributeError"

text \<open>\<open>value.strip()\<close>: only a \<open>str\<close> has the method.\<close>

fun value_strip :: "json \<Rightarrow> exn + ustr" where
  "value_strip (JString s) = Inr (strip s)"
| "value_strip JNull = Inl AttributeError"
| "value_strip (JBool b) = Inl AttributeError"
| "value_strip (JInt i) = Inl AttributeError"
| "value_strip (JFloat f) = Inl AttributeError"
| "value_strip (JArray xs) = Inl AttributeError"
| "value_strip (JObject kvs) = Inl AttributeError"

record details =
  description :: ustr
  upsell_suggestion :: ustr

text \<open>
  The body of the \<open>try\<close> block after \<open>json.loads\<close> has returned \<open>parsed\<close>: the two
  required fields, each stripped and cut to its limit.
\<close>

definition structured_response :: "json \<Rightarrow> exn + details" where
  "structured_response parsed =
     (case dict_get parsed (str ''description'') of
        Inl e \<Rightarrow> Inl e
      | Inr d \<Rightarrow>
          if \<not> truthy d then Inl (ValueError ''Missing required fields'')
          else (case dict_get parsed (str ''upsell_suggestion'') of
            Inl e \<Rightarrow> Inl e
          | Inr u \<Rightarrow>
              if \<not> truthy u then Inl (ValueError ''Missing required fields'')
              else (case value_strip d of
                Inl e \<Rightarrow> Inl e
              | Inr description0 \<Rightarrow>
                  let description1 =
                        (if length description0 > 150 then take 147 description0 @ str ''...''
                         else description0)
                  in (case value_strip u of
                    Inl e \<Rightarrow> Inl e
                  | Inr upsell0 \<Rightarrow>
                      let upsell1 =
                            (if length upsell0 > 100 then take 97 upsell0 @ str ''...''
                             else upsell0)
                      in Inr \<lparr>description = description1, upsell_suggestion = upsell1\<rparr>))))"

text \<open>
  \<open>re.sub(r'(Combo:|combo:|suggestion:|suggest:)', '', text)\<close>: from left to right, at each
  position the first alternative that matches there is deleted and the scan goes on after
  it. Every alternative has at least one character, so after a match of \<open>l\<close> at \<open>c # s\<close>
  the scan resumes at \<open>drop (length l - 1) s\<close>.
\<close>

definition labels :: "ustr list" where
  "labels = [str ''Combo:'', str ''combo:'', str ''suggestion:'', str ''suggest:'']"

fun re_sub_labels :: "ustr \<Rightarrow> ustr" where
  "re_sub_labels [] = []"
| "re_sub_labels (c # s) =
     (case find (\<lambda>l. starts_with l (c # s)) labels of
        Some l \<Rightarrow> re_sub_labels (drop (length l - 1) s)
      | None \<Rightarrow> c # re_sub_labels s)"

text \<open>The \<open>except\<close> block: the answer is read line by line.\<close>

definition fallback_parse :: "ustr \<Rightarrow> details" where
  "fallback_parse response_text =
     (let lines = map strip (filter (\<lambda>line. strip line \<noteq> []) (split_lines response_text));
          description0 = (case lines of [] \<Rightarrow> str ''Delicious dish prepared with care.''
                          | l # ls \<Rightarrow> l);
          description1 = (if length description0 > 150 then take 147 description0 @ str ''...''
                          else description0);
          upsell_line0 =
            (case find (\<lambda>line. any_in [''pair'', ''add'', ''combo'', ''suggest'', ''try'']
                                  (lower line)) (tl lines) of
               Some line \<Rightarrow> line
             | None \<Rightarrow> []);
          upsell_line1 = (if upsell_line0 = [] \<and> length lines > 1 then lines ! 1
                          else upsell_line0);
          upsell0 = strip (re_sub_labels upsell_line1);
          upsell1 = (if upsell0 = [] then str ''Pair it with your favorite beverage!''
                     else upsell0)
      in \<lparr>description = description1, upsell_suggestion = upsell1\<rparr>)"

text \<open>
  \<open>validate_ai_response\<close>. \<open>json.loads\<close> belongs to the Python library, so it is an
  argument: \<open>loads\<close> gives the parsed value or the exception it raises. An exception of the
  \<open>try\<close> block that the \<open>except\<close> clause does not name leaves the function.
\<close>

definition validate_ai_response :: "(ustr \<Rightarrow> exn + json) \<Rightarrow> ustr \<Rightarrow> exn + details" where
  "validate_ai_response loads response_text =
     (case (case loads (strip response_text) of
              Inl e \<Rightarrow> Inl e
            | Inr parsed \<Rightarrow> structured_response parsed) of
        Inr r \<Rightarrow> Inr r
      | Inl e \<Rightarrow> if is_ValueError e then Inr (fallback_parse response_text) else Inl e)"

section \<open>The keyword classifier (\<open>get_simulate_response\<close>)\<close>

text \<open>The separator (space, dash, space) of the templates: a space, U+2014, a space.\<close>

definition dash :: ustr where
  "dash = [32, 8212, 32]"

definition get_simulate_response :: "ustr \<Rightarrow> details" where
  "get_simulate_response name =
     (let item = lower name in
      if any_in [''pizza'', ''pasta''] item then
        \<lparr>description = name @ dash @ str ''freshly baked with premium ingredients, aromatic herbs, and authentic Italian flavors.'',
         upsell_suggestion = str ''Pair it with a refreshing Italian Soda!''\<rparr>
      else if any_in [''burger'', ''sandwich''] item then
        \<lparr>description = name @ dash @ str ''juicy, perfectly grilled with fresh vegetables and special sauce.'',
         upsell_suggestion = str ''Add crispy French Fries and a cold drink!''\<rparr>
      else if any_in [''curry'', ''biryani'', ''tikka''] item then
        \<lparr>description = name @ dash @ str ''rich, aromatic spices with tender meat and authentic Indian flavors.'',
         upsell_suggestion = str ''Pair it with fluffy Naan bread and Mango Lassi!''\<rparr>
      else if any_in [''sushi'', ''roll''] item then
        \<lparr>description = name @ dash @ str ''fresh, premium fish with perfectly seasoned rice and crisp vegetables.'',
         upsell_suggestion = str ''Add miso soup and green tea!''\<rparr>
      else if any_in [''salad'', ''bowl''] item then
        \<lparr>description = name @ dash @ str ''fresh, crisp vegetables with healthy grains and light dressing.'',
         upsell_suggestion = str ''Add a protein boost with grilled chicken!''\<rparr>
      else if any_in [''dessert'', ''cake'', ''ice cream''] item then
        \<lparr>description = name @ dash @ str ''sweet, indulgent treat made with premium ingredients.'',
         upsell_suggestion = str ''Pair it with hot coffee or tea!''\<rparr>
      else if any_in [''drink'', ''juice'', ''smoothie''] item then
        \<lparr>description = name @ dash @ str ''refreshing, natural flavors with no artificial additives.'',
         upsell_suggestion = str ''Add a light snack or dessert!''\<rparr>
      else
        \<lparr>description = name @ dash @ str ''delicious, freshly prepared with quality ingredients and authentic flavors.'',
         upsell_suggestion = str ''Pair it with your favorite beverage!''\<rparr>)"

text \<open>
  The classifier as the specification words it: the categories in their fixed order, each
  with its keywords and its two texts; the first category with a keyword in the lower-cased
  name is taken, the default one when there is none. It is compared with
  \<open>get_simulate_response\<close> below.
\<close>

datatype category = Italian | Burger | Indian | Sushi | Salad | Dessert | Drink | Default

fun category_keywords :: "category \<Rightarrow> string list" where
  "category_keywords Italian = [''pizza'', ''pasta'']"
| "category_keywords Burger = [''burger'', ''sandwich'']"
| "category_keywords Indian = [''curry'', ''biryani'', ''tikka'']"
| "category_keywords Sushi = [''sushi'', ''roll'']"
| "category_keywords Salad = [''salad'', ''bowl'']"
| "category_keywords Dessert = [''dessert'', ''cake'', ''ice cream'']"
| "category_keywords Drink = [''drink'', ''juice'', ''smoothie'']"
| "category_keywords Default = []"

definition category_order :: "category list" where
  "category_order = [Italian, Burger, Indian, Sushi, Salad, Dessert, Drink]"

definition category_of :: "ustr \<Rightarrow> category" where
  "category_of name =
     (case find (\<lambda>c. any_in (category_keywords c) (lower name)) category_order of
        Some c \<Rightarrow> c
      | None \<Rightarrow> Default)"

fun template :: "category \<Rightarrow> ustr \<times> ustr" where
  "template Italian = (str ''freshly baked with premium ingredients, aromatic herbs, and authentic Italian flavors.'', str ''Pair it with a refreshing Italian Soda!'')"
| "template Burger = (str ''juicy, perfectly grilled with fresh vegetables and special sauce.'', str ''Add crispy French Fries and a cold drink!'')"
| "template Indian = (str ''rich, aromatic spices with tender meat and authentic Indian flavors.'', str ''Pair it with fluffy Naan bread and Mango Lassi!'')"
| "template Sushi = (str ''fresh, premium fish with perfectly seasoned rice and crisp vegetables.'', str ''Add miso soup and green tea!'')"
| "template Salad = (str ''fresh, crisp vegetables with healthy grains and light dressing.'', str ''Add a protein boost with grilled chicken!'')"
| "template Dessert = (str ''sweet, indulgent treat made with premium ingredients.'', str ''Pair it with hot coffee or tea!'')"
| "template Drink = (str ''refreshing, natural flavors with no artificial additives.'', str ''Add a light snack or dessert!'')"
| "template Default = (str ''delicious, freshly prepared with quality ingredients and authentic flavors.'', str ''Pair it with your favorite beverage!'')"

definition classify :: "ustr \<Rightarrow> details" where
  "classify name =
     (let c = category_of name
      in \<lparr>description = name @ dash @ fst (template c), upsell_suggestion = snd (template c)\<rparr>)"

section \<open>Prompts (\<open>PromptEngineer\<close>)\<close>

fun join_lines :: "ustr list \<Rightarrow> ustr" where
  "join_lines [] = []"
| "join_lines [l] = l"
| "join_lines (l # m # ls) = l @ [10] @ join_lines (m # ls)"

text \<open>A text between double quotes (code point 34).\<close>

definition quoted :: "ustr \<Rightarrow> ustr" where
  "quoted s = [34] @ s @ [34]"

definition create_system_prompt :: ustr where
  "create_system_prompt = join_lines
     [str ''You are an expert menu copywriter for a premium restaurant chain. Your role is to:'',
      [],
      str ''1. CREATE COMPELLING DESCRIPTIONS: Write appetizing, professional menu descriptions that make customers want to order immediately'',
      str ''2. SUGGEST RELEVANT UPSALES: Recommend complementary items that enhance the dining experience'',
      str ''3. MAINTAIN CONSISTENCY: Use consistent tone, style, and format across all descriptions'',
      str ''4. RESPECT CONSTRAINTS: Keep descriptions under 30 words and focus on key selling points'',
      [],
      str ''Guidelines:'',
      str ''- Highlight unique ingredients, cooking methods, and flavors'',
      str ''- Use sensory words (aromatic, crispy, tender, etc.)'',
      str ''- Emphasize quality and authenticity'',
      str ''- Suggest culturally appropriate pairings'',
      str ''- Maintain professional, appetizing tone'',
      [],
      str ''Output Format: Return ONLY a valid JSON object with '' @ quoted (str ''description'')
        @ str '' and '' @ quoted (str ''upsell_suggestion'') @ str '' fields.'']"

definition create_user_prompt :: "ustr \<Rightarrow> ustr" where
  "create_user_prompt name = join_lines
     [str ''Create a menu description for '' @ quoted name
        @ str '' following these specific requirements:'',
      [],
      str ''DESCRIPTION REQUIREMENTS:'',
      str ''- Maximum 30 words'',
      str ''- Highlight: key ingredients, cooking method, taste/texture, unique selling point'',
      str ''- Use appetizing, professional language'',
      str ''- Focus on what makes this dish special'',
      [],
      str ''UPSELL REQUIREMENTS:'',
      str ''- Suggest ONE complementary item (beverage, side, dessert)'',
      str ''- Should enhance the main dish experience'',
      str ''- Culturally appropriate pairing'',
      str ''- Specific, actionable suggestion'',
      [],
      str ''RESPONSE FORMAT:'',
      str ''Return ONLY a JSON object:'',
      str ''{'',
      str ''  '' @ quoted (str ''description'') @ str '': ''
        @ quoted (str ''Your menu description here (max 30 words)'') @ str '','',
      str ''  '' @ quoted (str ''upsell_suggestion'') @ str '': ''
        @ quoted (str ''Your upsell suggestion here''),
      str ''}'',
      [],
      str ''Ensure the response is valid JSON and follows the exact format specified.'']"

section \<open>The request handler (\<open>generate_item_details\<close>)\<close>

record MenuItemResponse = details +
  generated_at :: ustr
  model_used :: ustr

text \<open>
  What the handler reads from its surroundings while it serves one request: the JSON
  decoder, the OpenAI client (\<open>None\<close> when no API key is configured; otherwise the
  chat-completion call, from the model name, the system prompt and the user prompt to the
  text of the first choice or to the exception raised on the way), the clock of
  \<open>time.time()\<close> and the text of \<open>datetime.now().isoformat()\<close>.
\<close>

record env =
  json_loads :: "ustr \<Rightarrow> exn + json"
  openai_client :: "(ustr \<Rightarrow> ustr \<Rightarrow> ustr \<Rightarrow> exn + ustr) option"
  time_now :: real
  now_isoformat :: ustr

text \<open>
  What the handler changes: the rate-limit store. \<open>model_calls\<close> is a log of the
  chat-completion calls made (model, system prompt, user prompt), kept so that "no model
  call was made" can be said.
\<close>

record state =
  rate_limit_store :: store
  model_calls :: "(ustr \<times> ustr \<times> ustr) list"

text \<open>
  Of the HTTP request: the \<open>X-Forwarded-For\<close> header if present, and the host of
  \<open>request.client\<close>, which may be \<open>None\<close>.
\<close>

record client_request =
  forwarded_for :: "ustr option"
  client_host :: "ustr option"

text \<open>\<open>forwarded.split(",")[0]\<close> is the text before the first comma (code point 44).\<close>

definition get_client_ip :: "client_request \<Rightarrow> exn + ustr" where
  "get_client_ip request =
     (case forwarded_for request of
        Some forwarded \<Rightarrow>
          if forwarded \<noteq> [] then Inr (takeWhile (\<lambda>c. c \<noteq> 44) forwarded)
          else (case client_host request of None \<Rightarrow> Inl AttributeError | Some h \<Rightarrow> Inr h)
      | None \<Rightarrow> (case client_host request of None \<Rightarrow> Inl AttributeError | Some h \<Rightarrow> Inr h))"

text \<open>The outcome of a request: the response body, or an HTTP error with its status code.\<close>

datatype outcome = Success MenuItemResponse | HTTPException nat

definition respond :: "details \<Rightarrow> ustr \<Rightarrow> ustr \<Rightarrow> MenuItemResponse" where
  "respond r stamp used =
     \<lparr>description = description r, upsell_suggestion = upsell_suggestion r,
      generated_at = stamp, model_used = used\<rparr>"

text \<open>
  The handler. An exception of \<open>get_client_ip\<close> reaches the outer \<open>except Exception\<close> and
  becomes status 500; a refusal of the limiter is the \<open>HTTPException\<close> 429, raised again
  as it is. The test \<open>request.simulate or not openai_client\<close> is the two branches that
  answer with "simulate". The inner \<open>except Exception\<close> catches every exception of the
  call and of \<open>validate_ai_response\<close>, and answers with "fallback".
\<close>

definition generate_item_details ::
    "env \<Rightarrow> MenuItemRequest \<Rightarrow> client_request \<Rightarrow> state \<Rightarrow> outcome \<times> state" where
  "generate_item_details e request client_request st =
     (case get_client_ip client_request of
        Inl err \<Rightarrow> (HTTPException 500, st)
      | Inr client_ip \<Rightarrow>
          let (admitted, store') = check_rate_limit client_ip 10 60 (time_now e) (rate_limit_store st);
              st1 = st\<lparr>rate_limit_store := store'\<rparr>
          in if \<not> admitted then (HTTPException 429, st1)
             else (case openai_client e of
               None \<Rightarrow>
                 (Success (respond (get_simulate_response (item_name request))
                             (now_isoformat e) (str ''simulate'')), st1)
             | Some create \<Rightarrow>
                 if simulate request then
                   (Success (respond (get_simulate_response (item_name request))
                               (now_isoformat e) (str ''simulate'')), st1)
                 else
                   let system_prompt = create_system_prompt;
                       user_prompt = create_user_prompt (item_name request);
                       st2 = st1\<lparr>model_calls := model_calls st1
                                @ [(gpt_model request, system_prompt, user_prompt)]\<rparr>;
                       fallback = Success (respond (get_simulate_response (item_name request))
                                    (now_isoformat e) (str ''fallback''))
                   in (case create (gpt_model request) system_prompt user_prompt of
                         Inl err \<Rightarrow> (fallback, st2)
                       | Inr content \<Rightarrow>
                           (case validate_ai_response (json_loads e) (strip content) of
                              Inl err \<Rightarrow> (fallback, st2)
                            | Inr validated_response \<Rightarrow>
                                (Success (respond validated_response (now_isoformat e)
                                            (gpt_model request)), st2)))))"

text \<open>
  The route as the framework runs it: the body is validated into a \<open>MenuItemRequest\<close>
  first, and a body that fails validation is answered with status 422 without the handler
  being called.
\<close>

definition post_generate_item_details ::
    "env \<Rightarrow> raw_request \<Rightarrow> client_request \<Rightarrow> state \<Rightarrow> outcome \<times> state" where
  "post_generate_item_details e body client_request st =
     (case parse_request body of
        Inl err \<Rightarrow> (HTTPException 422, st)
      | Inr request \<Rightarrow> generate_item_details e request client_request st)"

text \<open>A client whose call always fails, for concrete runs.\<close>

definition client_fails :: "ustr \<Rightarrow> ustr \<Rightarrow> ustr \<Rightarrow> exn + ustr" where
  "client_fails model system_prompt user_prompt = Inl APIError"

section \<open>Vocabulary of the statements\<close>

text \<open>
  The timestamps recorded for a client (none when the client has no entry), the ones of a
  list that lie within the trailing window at a given time, as the limiter tests it, and
  the bound that the limiter keeps on every list it stores.
\<close>

definition recorded :: "store \<Rightarrow> ustr \<Rightarrow> real list" where
  "recorded st client_ip = (case st client_ip of None \<Rightarrow> [] | Some ts \<Rightarrow> ts)"

definition in_window :: "real \<Rightarrow> int \<Rightarrow> real list \<Rightarrow> real list" where
  "in_window current_time window ts =
     filter (\<lambda>req_time. current_time - req_time < real_of_int window) ts"

definition bounded_store :: "int \<Rightarrow> store \<Rightarrow> bool" where
  "bounded_store limit st \<longleftrightarrow> (\<forall>c ts. st c = Some ts \<longrightarrow> ts = [] \<or> int (length ts) \<le> limit)"

text \<open>Ten calls of one client, one second apart.\<close>

definition ten_calls :: "(ustr \<times> real) list" where
  "ten_calls = map (\<lambda>t. (str ''10.0.0.1'', t)) [0, 1, 2, 3, 4, 5, 6, 7, 8, 9]"

text \<open>
  Values for concrete runs: a decoder that knows the text \<open>[]\<close> and rejects every other
  one, an environment whose client always fails, a direct connection, the state at start-up,
  the body of the script-tag request and a validated request.
\<close>

definition loads_brackets :: "ustr \<Rightarrow> exn + json" where
  "loads_brackets s = (if s = str ''[]'' then Inr (JArray []) else Inl JSONDecodeError)"

definition example_env :: env where
  "example_env =
     \<lparr>json_loads = loads_brackets, openai_client = Some client_fails, time_now = 0,
      now_isoformat = str ''2024-05-01T12:00:00''\<rparr>"

definition example_client :: client_request where
  "example_client = \<lparr>forwarded_for = None, client_host = Some (str ''10.0.0.1'')\<rparr>"

definition empty_state :: state where
  "empty_state = \<lparr>rate_limit_store = Map.empty, model_calls = []\<rparr>"

definition script_body :: raw_request where
  "script_body =
     \<lparr>raw_item_name = str ''<script>alert(1)</script>'', raw_simulate = None,
      raw_gpt_model = None\<rparr>"

definition pizza_request :: MenuItemRequest where
  "pizza_request =
     \<lparr>item_name = str ''Margherita Pizza'', simulate = False, gpt_model = str ''gpt-4''\<rparr>"

text \<open>
  Two parsed answers: one whose description of 200 characters starts with 60 blanks, one
  whose description is 200 letters.
\<close>

definition padded_description :: ustr where
  "padded_description = replicate 60 32 @ replicate 140 97"

definition padded_object :: json where
  "padded_object =
     JObject [(str ''description'', JString padded_description),
              (str ''upsell_suggestion'', JString (str ''Add fries''))]"

definition plain_object :: json where
  "plain_object =
     JObject [(str ''description'', JString (replicate 200 97)),
              (str ''upsell_suggestion'', JString (str ''Add fries''))]"

text \<open>
  An answer of the model in two lines of plain text, a parsed answer whose description is
  blank, and a request for simulation with an item name of 82 characters, with the response
  and the state that it leads to.
\<close>

definition salmon_line :: ustr where
  "salmon_line = str ''A juicy grilled salmon fillet.''"

definition wine_line :: ustr where
  "wine_line = str ''Pair it with our house white wine, a side of roasted vegetables, garlic bread and a slice of lemon tart!''"

definition two_line_answer :: ustr where
  "two_line_answer = join_lines [salmon_line, wine_line]"

definition blank_description_object :: json where
  "blank_description_object =
     JObject [(str ''description'', JString (str ''   '')),
              (str ''upsell_suggestion'', JString (str ''Add fries''))]"

definition long_name :: ustr where
  "long_name = str ''Slow roasted lamb shoulder with rosemary potatoes, glazed carrots and mint yoghurt''"

definition long_name_body :: raw_request where
  "long_name_body = \<lparr>raw_item_name = long_name, raw_simulate = Some True, raw_gpt_model = None\<rparr>"

definition long_name_response :: MenuItemResponse where
  "long_name_response =
     \<lparr>description = long_name @ dash
        @ str ''delicious, freshly prepared with quality ingredients and authentic flavors.'',
      upsell_suggestion = str ''Pair it with your favorite beverage!'',
      generated_at = str ''2024-05-01T12:00:00'',
      model_used = str ''simulate''\<rparr>"

definition state_after_one :: state where
  "state_after_one = \<lparr>rate_limit_store = [str ''10.0.0.1'' \<mapsto> [0]], model_calls = []\<rparr>"

text \<open>
  A pattern survives the cleaning when a match of it in the raw text is still there in the
  cleaned text: its first and last pieces are single literals that are not white space
  (so \<open>strip\<close> cannot cut into a match), and none of its atoms accepts one of the four
  removed characters (so the removal cannot either).
\<close>

fun atom_of :: "piece \<Rightarrow> atom" where
  "atom_of (One a) = a"
| "atom_of (Star a) = a"
| "atom_of (Plus a) = a"

fun clean_atom :: "atom \<Rightarrow> bool" where
  "clean_atom (Lit p) = (\<not> forbidden (sre_lower p))"
| "clean_atom AnyChar = False"
| "clean_atom Space = True"

fun solid_piece :: "piece \<Rightarrow> bool" where
  "solid_piece (One (Lit p)) = (\<not> isspace (sre_lower p))"
| "solid_piece (One AnyChar) = False"
| "solid_piece (One Space) = False"
| "solid_piece (Star a) = False"
| "solid_piece (Plus a) = False"

definition survives :: "piece list \<Rightarrow> bool" where
  "survives p \<longleftrightarrow>
     p \<noteq> [] \<and> solid_piece (hd p) \<and> solid_piece (last p) \<and> list_all (\<lambda>pc. clean_atom (atom_of pc)) p"

section \<open>The rate limiter is a sliding window\<close>

lemma check_rate_limit_admit:
  assumes "int (length (in_window now window (recorded st c))) < limit"
  shows "check_rate_limit c limit window now st
         = (True, st(c \<mapsto> in_window now window (recorded st c) @ [now]))"
  using assms
  by (cases "st c") (auto simp: check_rate_limit_def recorded_def in_window_def Let_def dom_def)

lemma check_rate_limit_reject:
  assumes "limit \<le> int (length (in_window now window (recorded st c)))"
  shows "check_rate_limit c limit window now st
         = (False, st(c \<mapsto> in_window now window (recorded st c)))"
  using assms
  by (cases "st c") (auto simp: check_rate_limit_def recorded_def in_window_def Let_def dom_def)

lemma length_in_window: "length (in_window now window ts) \<le> length ts"
  by (simp add: in_window_def)

lemma in_window_Nil: "in_window now window [] = []"
  by (simp add: in_window_def)

lemma bounded_store_step:
  assumes "bounded_store limit st"
  shows "bounded_store limit (snd (check_rate_limit c limit window now st))"
proof -
  let ?old = "recorded st c"
  let ?recent = "in_window now window ?old"
  have old: "?old = [] \<or> int (length ?old) \<le> limit"
    using assms by (auto simp: bounded_store_def recorded_def split: option.splits)
  have recent: "?recent = [] \<or> int (length ?recent) \<le> limit"
    using old length_in_window [of now window ?old] by (auto simp: in_window_Nil)
  show ?thesis
  proof (cases "int (length ?recent) < limit")
    case True
    then have "int (length (?recent @ [now])) \<le> limit" by simp
    with True assms show ?thesis
      by (simp add: check_rate_limit_admit bounded_store_def)
  next
    case False
    then have "limit \<le> int (length ?recent)" by simp
    with recent assms show ?thesis
      by (simp add: check_rate_limit_reject bounded_store_def)
  qed
qed

lemma bounded_store_run:
  "bounded_store limit st \<Longrightarrow> bounded_store limit (snd (run_calls limit window calls st))"
proof (induction calls arbitrary: st)
  case Nil
  then show ?case by simp
next
  case (Cons call calls)
  obtain c t where call: "call = (c, t)" by (cases call)
  have "bounded_store limit (snd (check_rate_limit c limit window t st))"
    using Cons.prems by (rule bounded_store_step)
  then have "bounded_store limit
               (snd (run_calls limit window calls (snd (check_rate_limit c limit window t st))))"
    by (rule Cons.IH)
  then show ?case
    by (simp add: call case_prod_beta)
qed

lemma bounded_store_empty: "bounded_store limit Map.empty"
  by (simp add: bounded_store_def)

lemma check_rate_limit_after_expiry:
  assumes st: "st = snd (run_calls limit window calls Map.empty)"
    and t: "t \<in> set (recorded st c)"
    and aged: "\<not> now - t < real_of_int window"
  shows "fst (check_rate_limit c limit window now st)"
proof -
  let ?old = "recorded st c"
  have "bounded_store limit st"
    unfolding st by (rule bounded_store_run [OF bounded_store_empty])
  moreover have "?old \<noteq> []" using t by auto
  ultimately have len: "int (length ?old) \<le> limit"
    by (auto simp: bounded_store_def recorded_def split: option.splits)
  have "length (in_window now window ?old) < length ?old"
    unfolding in_window_def using t aged by (intro length_filter_less) auto
  with len have "int (length (in_window now window ?old)) < limit" by simp
  then show ?thesis by (simp add: check_rate_limit_admit)
qed

lemma ten_calls_store:
  "snd (run_calls 10 60 ten_calls Map.empty) = [str ''10.0.0.1'' \<mapsto> [0, 1, 2, 3, 4, 5, 6, 7, 8, 9]]"
  by (simp add: ten_calls_def check_rate_limit_def Let_def)

text \<open>
  C2. For every client and every store, a call made while fewer than \<open>limit\<close> of the
  client's recorded timestamps lie within the trailing window returns true and records the
  current time after the ones still in the window; a call made while at least \<open>limit\<close>
  of them lie within the window returns false and records nothing (the list is only pruned);
  and in every store reached from the empty one by a sequence of calls with this limit and
  window, once a recorded timestamp of the client (the earliest in particular) is no longer
  within the window, the next call returns true.
\<close>

theorem check_rate_limit_sliding_window:
  "(int (length (in_window now window (recorded st c))) < limit \<longrightarrow>
      check_rate_limit c limit window now st
      = (True, st(c \<mapsto> in_window now window (recorded st c) @ [now])))
   \<and> (limit \<le> int (length (in_window now window (recorded st c))) \<longrightarrow>
      check_rate_limit c limit window now st
      = (False, st(c \<mapsto> in_window now window (recorded st c))))
   \<and> (st = snd (run_calls limit window calls Map.empty) \<and> t \<in> set (recorded st c)
        \<and> \<not> now - t < real_of_int window \<longrightarrow>
      fst (check_rate_limit c limit window now st))"
  using check_rate_limit_admit check_rate_limit_reject check_rate_limit_after_expiry
  by blast

theorem check_rate_limit_sliding_window_witness:
  "check_rate_limit (str ''10.0.0.1'') 10 60 0 Map.empty = (True, [str ''10.0.0.1'' \<mapsto> [0]])
   \<and> check_rate_limit (str ''10.0.0.1'') 10 60 30 (snd (run_calls 10 60 ten_calls Map.empty))
       = (False, [str ''10.0.0.1'' \<mapsto> [0, 1, 2, 3, 4, 5, 6, 7, 8, 9]])
   \<and> fst (check_rate_limit (str ''10.0.0.1'') 10 60 60 (snd (run_calls 10 60 ten_calls Map.empty)))"
  using check_rate_limit_sliding_window
          [of 0 60 Map.empty "str ''10.0.0.1''" 10 "[]" 0]
        check_rate_limit_sliding_window
          [of 30 60 "snd (run_calls 10 60 ten_calls Map.empty)" "str ''10.0.0.1''" 10 "[]" 0]
        check_rate_limit_sliding_window
          [of 60 60 "snd (run_calls 10 60 ten_calls Map.empty)" "str ''10.0.0.1''" 10 ten_calls 0]
  by (simp add: ten_calls_store recorded_def in_window_def)

section \<open>The classifier takes the first category in the fixed order\<close>

lemma get_simulate_response_classify: "get_simulate_response name = classify name"
proof -
  consider
      (italian) "any_in (category_keywords Italian) (lower name)"
    | (burger) "\<not> any_in (category_keywords Italian) (lower name)"
        "any_in (category_keywords Burger) (lower name)"
    | (indian) "\<not> any_in (category_keywords Italian) (lower name)"
        "\<not> any_in (category_keywords Burger) (lower name)"
        "any_in (category_keywords Indian) (lower name)"
    | (sushi) "\<not> any_in (category_keywords Italian) (lower name)"
        "\<not> any_in (category_keywords Burger) (lower name)"
        "\<not> any_in (category_keywords Indian) (lower name)"
        "any_in (category_keywords Sushi) (lower name)"
    | (salad) "\<not> any_in (category_keywords Italian) (lower name)"
        "\<not> any_in (category_keywords Burger) (lower name)"
        "\<not> any_in (category_keywords Indian) (lower name)"
        "\<not> any_in (category_keywords Sushi) (lower name)"
        "any_in (category_keywords Salad) (lower name)"
    | (dessert) "\<not> any_in (category_keywords Italian) (lower name)"
        "\<not> any_in (category_keywords Burger) (lower name)"
        "\<not> any_in (category_keywords Indian) (lower name)"
        "\<not> any_in (category_keywords Sushi) (lower name)"
        "\<not> any_in (category_keywords Salad) (lower name)"
        "any_in (category_keywords Dessert) (lower name)"
    | (drink) "\<not> any_in (category_keywords Italian) (lower name)"
        "\<not> any_in (category_keywords Burger) (lower name)"
        "\<not> any_in (category_keywords Indian) (lower name)"
        "\<not> any_in (category_keywords Sushi) (lower name)"
        "\<not> any_in (category_keywords Salad) (lower name)"
        "\<not> any_in (category_keywords Dessert) (lower name)"
        "any_in (category_keywords Drink) (lower name)"
    | (default) "\<not> any_in (category_keywords Italian) (lower name)"
        "\<not> any_in (category_keywords Burger) (lower name)"
        "\<not> any_in (category_keywords Indian) (lower name)"
        "\<not> any_in (category_keywords Sushi) (lower name)"
        "\<not> any_in (category_keywords Salad) (lower name)"
        "\<not> any_in (category_keywords Dessert) (lower name)"
        "\<not> any_in (category_keywords Drink) (lower name)"
    by blast
  then show ?thesis
  proof cases
    case italian
    then show ?thesis
      by (simp add: get_simulate_response_def classify_def category_of_def category_order_def)
  next
    case burger
    then show ?thesis
      by (simp add: get_simulate_response_def classify_def category_of_def category_order_def)
  next
    case indian
    then show ?thesis
      by (simp add: get_simulate_response_def classify_def category_of_def category_order_def)
  next
    case sushi
    then show ?thesis
      by (simp add: get_simulate_response_def classify_def category_of_def category_order_def)
  next
    case salad
    then show ?thesis
      by (simp add: get_simulate_response_def classify_def category_of_def category_order_def)
  next
    case dessert
    then show ?thesis
      by (simp add: get_simulate_response_def classify_def category_of_def category_order_def)
  next
    case drink
    then show ?thesis
      by (simp add: get_simulate_response_def classify_def category_of_def category_order_def)
  next
    case default
    then show ?thesis
      by (simp add: get_simulate_response_def classify_def category_of_def category_order_def)
  qed
qed

lemma lower_pizza_bowl: "lower (str ''pizza bowl'') = str ''pizza bowl''"
  by (simp add: str_def lower_def lower_cp_def)

lemma pizza_bowl_italian: "category_of (str ''pizza bowl'') = Italian"
  by (simp add: category_of_def category_order_def any_in_def str_def lower_def lower_cp_def)

lemma pizza_bowl_salad: "any_in (category_keywords Salad) (lower (str ''pizza bowl''))"
  by (simp add: any_in_def str_def lower_def lower_cp_def)

text \<open>
  C6. The classifier is a function of the item name alone, defined on every name. Its
  answer is the pair of texts of the first category, in the order Italian, burger, Indian,
  sushi, salad, dessert, drink, that has a keyword in the lower-cased name, and of the
  default category when none has. The description is the name as given (not lower-cased),
  the dash and the text of the category. The name "pizza bowl" has a keyword of the salad
  category and is classified as Italian.
\<close>

theorem classifier_first_category_wins:
  "get_simulate_response name = classify name
   \<and> description (get_simulate_response name) = name @ dash @ fst (template (category_of name))
   \<and> category_of (str ''pizza bowl'') = Italian
   \<and> any_in (category_keywords Salad) (lower (str ''pizza bowl''))"
proof (intro conjI)
  show "get_simulate_response name = classify name"
    by (rule get_simulate_response_classify)
  show "description (get_simulate_response name) = name @ dash @ fst (template (category_of name))"
    by (simp add: get_simulate_response_classify classify_def Let_def)
  show "category_of (str ''pizza bowl'') = Italian"
    by (rule pizza_bowl_italian)
  show "any_in (category_keywords Salad) (lower (str ''pizza bowl''))"
    by (rule pizza_bowl_salad)
qed

section \<open>Model selection\<close>

text \<open>
  C9. A requested model identifier that is in the allow-list (gpt-3.5-turbo, gpt-4,
  gpt-4-turbo) is returned unchanged; any other identifier, and an absent one, gives
  gpt-3.5-turbo. The validator returns a model identifier in every case: it has no error
  result.
\<close>

theorem validate_gpt_model_allow_list:
  "(m \<in> set allowed_models \<longrightarrow> validate_gpt_model (Some m) = m)
   \<and> (m \<notin> set allowed_models \<longrightarrow> validate_gpt_model (Some m) = str ''gpt-3.5-turbo'')
   \<and> validate_gpt_model None = str ''gpt-3.5-turbo''
   \<and> allowed_models = [str ''gpt-3.5-turbo'', str ''gpt-4'', str ''gpt-4-turbo'']"
  by (simp add: validate_gpt_model_def allowed_models_def)

theorem validate_gpt_model_allow_list_witness:
  "str ''gpt-4'' \<in> set allowed_models \<and> validate_gpt_model (Some (str ''gpt-4'')) = str ''gpt-4''
   \<and> str ''gpt-5'' \<notin> set allowed_models
   \<and> validate_gpt_model (Some (str ''gpt-5'')) = str ''gpt-3.5-turbo''"
  using validate_gpt_model_allow_list [of "str ''gpt-4''"]
        validate_gpt_model_allow_list [of "str ''gpt-5''"]
  by (simp add: allowed_models_def str_def)

section \<open>The tag-shape pattern never decides\<close>

lemma lit_lt_matches: "atom_matches (Lit 60) c \<longleftrightarrow> c = 60"
  by (auto simp: sre_lower_def ignorecase_fixes_def split: if_splits)

lemma match_here_tag: "match_here tag_pattern s \<Longrightarrow> 60 \<in> set s"
  by (cases s) (simp_all add: tag_pattern_def lit_lt_matches del: atom_matches.simps)

lemma re_search_tag: "re_search tag_pattern s \<Longrightarrow> 60 \<in> set s"
  by (induction s) (auto dest: match_here_tag)

lemma sanitize_no_lt: "60 \<notin> set (sanitize v)"
  by (simp add: sanitize_def forbidden_def)

lemma tag_never_matches: "\<not> re_search tag_pattern (sanitize v)"
  using re_search_tag sanitize_no_lt by blast

lemma list_ex_filter_neq: "\<not> P t \<Longrightarrow> list_ex P (filter (\<lambda>p. p \<noteq> t) ps) = list_ex P ps"
  by (auto simp: list_ex_iff)

text \<open>
  C10. The validator with the denylist as the code has it gives, for every input, the same
  result (the same cleaned name or the same error) as the validator whose denylist lacks the
  tag-shape pattern: the cleaned text has no \<open><\<close>, which that pattern needs, so the pattern
  never matches it.
\<close>

theorem tag_pattern_redundant:
  "validate_item_name v
     = validate_item_name_with (filter (\<lambda>p. p \<noteq> tag_pattern) suspicious_patterns) v
   \<and> tag_pattern \<in> set suspicious_patterns
   \<and> \<not> re_search tag_pattern (sanitize v)"
proof (intro conjI)
  show "validate_item_name v
     = validate_item_name_with (filter (\<lambda>p. p \<noteq> tag_pattern) suspicious_patterns) v"
    unfolding validate_item_name_def validate_item_name_with_def Let_def
    by (simp only: list_ex_filter_neq
          [where P = "\<lambda>pattern. re_search pattern (sanitize v)" and t = tag_pattern,
           OF tag_never_matches])
  show "tag_pattern \<in> set suspicious_patterns"
    by (simp add: suspicious_patterns_def)
  show "\<not> re_search tag_pattern (sanitize v)"
    by (rule tag_never_matches)
qed

section \<open>The request pipeline\<close>

text \<open>
  C8. A request whose item name fails validation is answered with the client error 422 and
  nothing else happens: the state comes back as it was, so the rate-limit store is unchanged
  and no model call is logged.
\<close>

theorem invalid_name_no_side_effect:
  assumes "validate_item_name (raw_item_name body) = Inl err"
  shows "post_generate_item_details e body client_request st = (HTTPException 422, st)
         \<and> rate_limit_store (snd (post_generate_item_details e body client_request st))
             = rate_limit_store st
         \<and> model_calls (snd (post_generate_item_details e body client_request st))
             = model_calls st"
  using assms by (simp add: post_generate_item_details_def parse_request_def)

lemma script_body_invalid:
  "validate_item_name (raw_item_name script_body)
   = Inl (ValueError ''Invalid characters detected in item name'')"
  by (simp add: script_body_def validate_item_name_def validate_item_name_with_def
      suspicious_patterns_def lits_def tag_pattern_def sanitize_def strip_def isspace_def
      forbidden_def str_def sre_lower_def ignorecase_fixes_def)

theorem invalid_name_no_side_effect_witness:
  "validate_item_name (raw_item_name script_body)
     = Inl (ValueError ''Invalid characters detected in item name'')
   \<and> post_generate_item_details example_env script_body example_client empty_state
     = (HTTPException 422, empty_state)"
  using invalid_name_no_side_effect [OF script_body_invalid, of example_env example_client empty_state]
    script_body_invalid
  by simp

text \<open>
  C5. For a request that reaches the model call (the client address is known, the limiter
  admits it, it does not ask for simulation and a client is configured), if the call fails
  with any exception then the handler still answers with a response: \<open>model_used\<close> is
  "fallback" and the description and the upsell are those of the classifier for the item
  name.
\<close>

theorem model_failure_falls_back:
  assumes "get_client_ip client_request = Inr ip"
    and "fst (check_rate_limit ip 10 60 (time_now e) (rate_limit_store st))"
    and "\<not> simulate request"
    and "openai_client e = Some create"
    and "create (gpt_model request) create_system_prompt (create_user_prompt (item_name request))
         = Inl err"
  shows "\<exists>resp. fst (generate_item_details e request client_request st) = Success resp
           \<and> model_used resp = str ''fallback''
           \<and> description resp = description (get_simulate_response (item_name request))
           \<and> upsell_suggestion resp = upsell_suggestion (get_simulate_response (item_name request))"
  using assms
  by (simp add: generate_item_details_def Let_def respond_def case_prod_beta)

theorem model_failure_falls_back_witness:
  "get_client_ip example_client = Inr (str ''10.0.0.1'')
   \<and> fst (check_rate_limit (str ''10.0.0.1'') 10 60 (time_now example_env)
           (rate_limit_store empty_state))
   \<and> \<not> simulate pizza_request
   \<and> openai_client example_env = Some client_fails
   \<and> client_fails (gpt_model pizza_request) create_system_prompt
        (create_user_prompt (item_name pizza_request)) = Inl APIError
   \<and> (\<exists>resp. fst (generate_item_details example_env pizza_request example_client empty_state)
              = Success resp
         \<and> model_used resp = str ''fallback''
         \<and> description resp = description (get_simulate_response (item_name pizza_request))
         \<and> upsell_suggestion resp
             = upsell_suggestion (get_simulate_response (item_name pizza_request)))"
proof -
  have ip: "get_client_ip example_client = Inr (str ''10.0.0.1'')"
    by (simp add: get_client_ip_def example_client_def)
  have ok: "fst (check_rate_limit (str ''10.0.0.1'') 10 60 (time_now example_env)
                  (rate_limit_store empty_state))"
    by (simp add: check_rate_limit_def empty_state_def example_env_def Let_def)
  have sim: "\<not> simulate pizza_request"
    by (simp add: pizza_request_def)
  have client: "openai_client example_env = Some client_fails"
    by (simp add: example_env_def)
  have fails: "client_fails (gpt_model pizza_request) create_system_prompt
        (create_user_prompt (item_name pizza_request)) = Inl APIError"
    by (simp add: client_fails_def)
  from model_failure_falls_back [OF ip ok sim client fails] ip ok sim client fails
  show ?thesis by blast
qed

section \<open>The structured path of the repairer\<close>

lemma value_strip_Inr: "value_strip j = Inr s \<Longrightarrow> \<exists>t. j = JString t \<and> s = strip t"
  by (cases j) auto

lemma structured_response_Inr:
  assumes "structured_response parsed = Inr r"
  shows "\<exists>d u. dict_get parsed (str ''description'') = Inr (JString d) \<and> d \<noteq> []
           \<and> dict_get parsed (str ''upsell_suggestion'') = Inr (JString u) \<and> u \<noteq> []
           \<and> description r = (if length (strip d) > 150 then take 147 (strip d) @ str ''...''
                               else strip d)
           \<and> upsell_suggestion r = (if length (strip u) > 100 then take 97 (strip u) @ str ''...''
                                     else strip u)"
proof -
  obtain jd where jd: "dict_get parsed (str ''description'') = Inr jd"
    using assms by (auto simp: structured_response_def split: sum.splits)
  have td: "truthy jd"
    using assms jd by (auto simp: structured_response_def split: sum.splits if_splits)
  obtain ju where ju: "dict_get parsed (str ''upsell_suggestion'') = Inr ju"
    using assms jd td by (auto simp: structured_response_def split: sum.splits)
  have tu: "truthy ju"
    using assms jd td ju by (auto simp: structured_response_def split: sum.splits if_splits)
  obtain sd where sd: "value_strip jd = Inr sd"
    using assms jd td ju tu by (auto simp: structured_response_def split: sum.splits)
  obtain su where su: "value_strip ju = Inr su"
    using assms jd td ju tu sd by (auto simp: structured_response_def Let_def split: sum.splits)
  obtain d where d: "jd = JString d" "sd = strip d"
    using value_strip_Inr [OF sd] by blast
  obtain u where u: "ju = JString u" "su = strip u"
    using value_strip_Inr [OF su] by blast
  have r: "r = \<lparr>description = (if length sd > 150 then take 147 sd @ str ''...'' else sd),
                upsell_suggestion = (if length su > 100 then take 97 su @ str ''...'' else su)\<rparr>"
    using assms jd td ju tu sd su by (simp add: structured_response_def Let_def)
  show ?thesis
    using jd ju td tu d u r by auto
qed

lemma length_dots: "length (str ''...'') = 3"
  by (simp add: str_def)

lemma structured_response_bounds:
  assumes "structured_response parsed = Inr r"
  shows "length (description r) \<le> 150 \<and> length (upsell_suggestion r) \<le> 100"
  using structured_response_Inr [OF assms] by (auto simp: length_dots)

lemma strip_replicate_a: "strip (replicate n 97) = replicate n 97"
  by (simp add: strip_def isspace_def dropWhile_replicate)

lemma dropWhile_replicate_append:
  "P x \<Longrightarrow> dropWhile P (replicate n x @ ys) = dropWhile P ys"
  by (induction n) auto

lemma isspace_blank: "isspace 32"
  by (simp add: isspace_def)

lemma not_isspace_a: "\<not> isspace 97"
  by (simp add: isspace_def)

lemma strip_padded: "strip padded_description = replicate 140 97"
  by (simp add: padded_description_def strip_def dropWhile_replicate_append [where P = isspace and x = 32, OF isspace_blank]
      dropWhile_replicate not_isspace_a)

lemma strip_add_fries: "strip (str ''Add fries'') = str ''Add fries''"
  by (simp add: strip_def isspace_def str_def)

lemma plain_object_response:
  "structured_response plain_object
   = Inr \<lparr>description = replicate 147 97 @ str ''...'', upsell_suggestion = str ''Add fries''\<rparr>"
  by (simp add: structured_response_def plain_object_def strip_replicate_a strip_add_fries)
     (simp add: str_def)

text \<open>
  C7 (as amended). On the structured path (the parsed answer has both fields and the path
  returns a result), a description of 200 characters that neither begins nor ends with
  white space comes out as exactly 150 characters: its first 147 characters followed by
  three dots.
\<close>

theorem structured_description_cut:
  assumes "structured_response parsed = Inr r"
    and "dict_get parsed (str ''description'') = Inr (JString d)"
    and "length d = 200"
    and "strip d = d"
  shows "description r = take 147 d @ str ''...'' \<and> length (description r) = 150"
  using structured_response_Inr [OF assms(1)] assms(2-4) by (auto simp: length_dots)

theorem structured_description_cut_witness:
  "structured_response plain_object
     = Inr \<lparr>description = replicate 147 97 @ str ''...'', upsell_suggestion = str ''Add fries''\<rparr>
   \<and> dict_get plain_object (str ''description'') = Inr (JString (replicate 200 97))
   \<and> length (replicate 200 (97::nat)) = 200
   \<and> strip (replicate 200 97) = replicate 200 97
   \<and> length (replicate 147 (97::nat) @ str ''...'') = 150"
  using structured_description_cut [OF plain_object_response, of "replicate 200 97"]
    plain_object_response strip_replicate_a [of 200]
  by (simp add: plain_object_def)

text \<open>
  C7 as stated fails: the description is stripped before it is measured. A description of
  200 characters that starts with 60 blanks comes out as its 140 letters, not cut and
  without dots.
\<close>

theorem structured_description_padded_counterexample:
  "dict_get padded_object (str ''description'') = Inr (JString padded_description)
   \<and> length padded_description = 200
   \<and> structured_response padded_object
       = Inr \<lparr>description = replicate 140 97, upsell_suggestion = str ''Add fries''\<rparr>
   \<and> length (replicate 140 (97::nat)) \<noteq> 150"
  by (simp add: structured_response_def padded_object_def strip_padded strip_add_fries)
     (simp add: str_def padded_description_def)

section \<open>Where the repairer breaks its contract\<close>

lemma loads_brackets_list: "loads_brackets (strip (str ''[]'')) = Inr (JArray [])"
  by (simp add: loads_brackets_def strip_def isspace_def str_def)

lemma repair_raises_on_list: "validate_ai_response loads_brackets (str ''[]'') = Inl AttributeError"
  by (simp add: validate_ai_response_def loads_brackets_list structured_response_def)

lemma two_line_answer_rejected: "loads_brackets (strip two_line_answer) = Inl JSONDecodeError"
  by (simp add: loads_brackets_def two_line_answer_def salmon_line_def wine_line_def
      strip_def isspace_def str_def)

lemma two_line_answer_lines:
  "map strip (filter (\<lambda>line. strip line \<noteq> []) (split_lines two_line_answer))
   = [salmon_line, wine_line]"
  by (simp add: two_line_answer_def salmon_line_def wine_line_def strip_def isspace_def str_def)

lemma wine_line_cue:
  "any_in [''pair'', ''add'', ''combo'', ''suggest'', ''try''] (lower wine_line)"
  by (simp add: any_in_def wine_line_def lower_def lower_cp_def str_def)

lemma wine_line_labels: "re_sub_labels wine_line = wine_line"
  by (simp add: wine_line_def labels_def str_def)

lemma wine_line_strip: "strip wine_line = wine_line"
  by (simp add: wine_line_def strip_def isspace_def str_def)

lemma salmon_line_length: "length salmon_line = 30"
  by (simp add: salmon_line_def str_def)

lemma wine_line_length: "length wine_line = 104"
  by (simp add: wine_line_def str_def)

lemma wine_line_not_empty: "wine_line \<noteq> []"
  using wine_line_length by auto

lemma two_line_answer_parse:
  "fallback_parse two_line_answer = \<lparr>description = salmon_line, upsell_suggestion = wine_line\<rparr>"
  by (simp add: fallback_parse_def Let_def two_line_answer_lines wine_line_cue wine_line_labels
      wine_line_strip salmon_line_length wine_line_not_empty)

lemma repair_two_line_answer:
  "validate_ai_response loads_brackets two_line_answer
   = Inr \<lparr>description = salmon_line, upsell_suggestion = wine_line\<rparr>"
  by (simp add: validate_ai_response_def two_line_answer_rejected two_line_answer_parse)

lemma repair_blank_description:
  "structured_response blank_description_object
   = Inr \<lparr>description = [], upsell_suggestion = str ''Add fries''\<rparr>"
  by (simp add: structured_response_def blank_description_object_def strip_add_fries)
     (simp add: str_def strip_def isspace_def)

text \<open>
  C3 fails on the code. On the text \<open>[]\<close>, which the decoder accepts, the repairer raises
  \<open>AttributeError\<close>: a list has no \<open>get\<close>, and the \<open>except\<close> clause names
  \<open>JSONDecodeError\<close> and \<open>ValueError\<close> only. On an answer of two plain lines the upsell
  is the second line as it is, 104 characters here: the line-by-line branch cuts the
  description and not the upsell. On a parsed answer whose description is blank the
  description comes out empty: the field is tested before it is stripped.
\<close>

theorem repair_breaks_its_contract:
  "validate_ai_response loads_brackets (str ''[]'') = Inl AttributeError
   \<and> validate_ai_response loads_brackets two_line_answer
       = Inr \<lparr>description = salmon_line, upsell_suggestion = wine_line\<rparr>
   \<and> length wine_line = 104
   \<and> structured_response blank_description_object
       = Inr \<lparr>description = [], upsell_suggestion = str ''Add fries''\<rparr>"
  by (simp only: repair_raises_on_list repair_two_line_answer wine_line_length
      repair_blank_description simp_thms)


section \<open>The fields of a response\<close>

lemma validate_item_name_Inr:
  "validate_item_name v = Inr n \<Longrightarrow> n = sanitize v \<and> length n \<le> 100"
  by (auto simp: validate_item_name_def validate_item_name_with_def Let_def split: if_splits)

lemma validate_gpt_model_allowed: "validate_gpt_model v \<in> set allowed_models"
  by (cases v) (auto simp: validate_gpt_model_def allowed_models_def)

lemma template_lengths:
  "length (fst (template c)) \<le> 86 \<and> length (snd (template c)) \<le> 100"
  by (cases c) (simp_all add: str_def)

lemma classify_fields:
  "description (get_simulate_response name) = name @ dash @ fst (template (category_of name))
   \<and> upsell_suggestion (get_simulate_response name) = snd (template (category_of name))"
  by (simp add: get_simulate_response_classify classify_def Let_def)

lemma classify_lengths:
  "length (description (get_simulate_response name)) \<le> length name + 89
   \<and> length (upsell_suggestion (get_simulate_response name)) \<le> 100"
  using template_lengths [of "category_of name"]
  by (simp add: classify_fields dash_def)

lemma fallback_parse_description_bound: "length (description (fallback_parse t)) \<le> 150"
  by (simp add: fallback_parse_def Let_def length_dots)

lemma validate_ai_response_description_bound:
  assumes "validate_ai_response loads t = Inr r"
  shows "length (description r) \<le> 150"
proof (cases "loads (strip t)")
  case (Inl err)
  with assms have "r = fallback_parse t"
    by (simp add: validate_ai_response_def split: if_splits)
  then show ?thesis by (simp add: fallback_parse_description_bound)
next
  case (Inr parsed)
  show ?thesis
  proof (cases "structured_response parsed")
    case (Inl err)
    with assms Inr have "r = fallback_parse t"
      by (simp add: validate_ai_response_def split: if_splits)
    then show ?thesis by (simp add: fallback_parse_description_bound)
  next
    case inner: (Inr r')
    with assms Inr have "r = r'" by (simp add: validate_ai_response_def)
    with inner show ?thesis using structured_response_bounds by blast
  qed
qed

lemma handler_response_cases:
  assumes "generate_item_details e request client_request st = (Success resp, st')"
  shows "(model_used resp = gpt_model request \<and> length (description resp) \<le> 150)
         \<or> (model_used resp \<in> {str ''simulate'', str ''fallback''}
             \<and> description resp = description (get_simulate_response (item_name request))
             \<and> upsell_suggestion resp
                 = upsell_suggestion (get_simulate_response (item_name request)))"
proof -
  obtain client_ip where ip: "get_client_ip client_request = Inr client_ip"
    using assms by (auto simp: generate_item_details_def split: sum.splits)
  have admitted: "fst (check_rate_limit client_ip 10 60 (time_now e) (rate_limit_store st))"
    using assms ip
    by (auto simp: generate_item_details_def Let_def case_prod_beta split: if_splits)
  show ?thesis
  proof (cases "openai_client e")
    case None
    with assms ip admitted show ?thesis
      by (auto simp: generate_item_details_def Let_def case_prod_beta respond_def)
  next
    case (Some create)
    show ?thesis
    proof (cases "simulate request")
      case True
      with assms ip admitted Some show ?thesis
        by (auto simp: generate_item_details_def Let_def case_prod_beta respond_def)
    next
      case False
      show ?thesis
      proof (cases "create (gpt_model request) create_system_prompt
                      (create_user_prompt (item_name request))")
        case (Inl err)
        with assms ip admitted Some False show ?thesis
          by (auto simp: generate_item_details_def Let_def case_prod_beta respond_def)
      next
        case (Inr content)
        show ?thesis
        proof (cases "validate_ai_response (json_loads e) (strip content)")
          case (Inl err)
          with assms ip admitted Some False Inr show ?thesis
            by (auto simp: generate_item_details_def Let_def case_prod_beta respond_def)
        next
          case validated: (Inr v)
          have "length (description v) \<le> 150"
            using validated by (rule validate_ai_response_description_bound)
          with assms ip admitted Some False Inr validated show ?thesis
            by (auto simp: generate_item_details_def Let_def case_prod_beta respond_def)
        qed
      qed
    qed
  qed
qed

lemma long_name_valid: "validate_item_name long_name = Inr long_name"
  by (simp add: long_name_def validate_item_name_def validate_item_name_with_def
      suspicious_patterns_def lits_def tag_pattern_def sanitize_def strip_def isspace_def
      forbidden_def str_def sre_lower_def ignorecase_fixes_def)

lemma long_name_default: "category_of long_name = Default"
  by (simp add: category_of_def category_order_def any_in_def long_name_def lower_def
      lower_cp_def str_def)

lemma long_name_classified:
  "get_simulate_response long_name
   = \<lparr>description = long_name @ dash
        @ str ''delicious, freshly prepared with quality ingredients and authentic flavors.'',
      upsell_suggestion = str ''Pair it with your favorite beverage!''\<rparr>"
  by (simp add: get_simulate_response_classify classify_def long_name_default)

lemma long_name_run:
  "post_generate_item_details example_env long_name_body example_client empty_state
   = (Success long_name_response, state_after_one)"
  by (simp add: post_generate_item_details_def parse_request_def long_name_body_def
      long_name_valid generate_item_details_def get_client_ip_def example_client_def
      example_env_def empty_state_def check_rate_limit_def Let_def respond_def
      long_name_classified long_name_response_def state_after_one_def)

lemma long_name_description_length: "length (description long_name_response) = 160"
  by (simp add: long_name_response_def long_name_def dash_def str_def)

text \<open>
  C4 (as amended). Every response of the pipeline is of one of two kinds. On the model
  path \<open>model_used\<close> is the validated model identifier, a member of the allow-list, and the
  description has at most 150 characters. On the simulate and fallback paths
  \<open>model_used\<close> is "simulate" or "fallback", the upsell has at most 100 characters and
  the description is the cleaned item name, the dash and the text of its category: at most
  189 characters, not at most 150.
\<close>

theorem response_fields:
  assumes "post_generate_item_details e body client_request st = (Success resp, st')"
  shows "(model_used resp = validate_gpt_model (raw_gpt_model body)
          \<and> model_used resp \<in> set allowed_models
          \<and> length (description resp) \<le> 150)
         \<or> (model_used resp \<in> {str ''simulate'', str ''fallback''}
             \<and> description resp
                 = sanitize (raw_item_name body) @ dash
                   @ fst (template (category_of (sanitize (raw_item_name body))))
             \<and> length (description resp) \<le> 189
             \<and> length (upsell_suggestion resp) \<le> 100)"
proof -
  obtain request where request: "parse_request body = Inr request"
    and handler: "generate_item_details e request client_request st = (Success resp, st')"
    using assms by (auto simp: post_generate_item_details_def split: sum.splits)
  obtain name where name: "validate_item_name (raw_item_name body) = Inr name"
    and fields: "item_name request = name"
      "gpt_model request = validate_gpt_model (raw_gpt_model body)"
    using request by (auto simp: parse_request_def split: sum.splits)
  have clean: "name = sanitize (raw_item_name body)" "length name \<le> 100"
    using validate_item_name_Inr [OF name] by auto
  from handler_response_cases [OF handler] show ?thesis
  proof
    assume "model_used resp = gpt_model request \<and> length (description resp) \<le> 150"
    then show ?thesis
      using fields validate_gpt_model_allowed by simp
  next
    assume other: "model_used resp \<in> {str ''simulate'', str ''fallback''}
             \<and> description resp = description (get_simulate_response (item_name request))
             \<and> upsell_suggestion resp
                 = upsell_suggestion (get_simulate_response (item_name request))"
    have "length (description resp) \<le> 189 \<and> length (upsell_suggestion resp) \<le> 100"
      using other classify_lengths [of name] fields clean by simp
    moreover have "description resp
                 = sanitize (raw_item_name body) @ dash
                   @ fst (template (category_of (sanitize (raw_item_name body))))"
      using other classify_fields [of name] fields clean by simp
    ultimately show ?thesis using other by blast
  qed
qed


theorem response_fields_witness:
  "post_generate_item_details example_env long_name_body example_client empty_state
     = (Success long_name_response, state_after_one)
   \<and> ((model_used long_name_response = validate_gpt_model (raw_gpt_model long_name_body)
          \<and> model_used long_name_response \<in> set allowed_models
          \<and> length (description long_name_response) \<le> 150)
         \<or> (model_used long_name_response \<in> {str ''simulate'', str ''fallback''}
             \<and> description long_name_response
                 = sanitize (raw_item_name long_name_body) @ dash
                   @ fst (template (category_of (sanitize (raw_item_name long_name_body))))
             \<and> length (description long_name_response) \<le> 189
             \<and> length (upsell_suggestion long_name_response) \<le> 100))"
  using response_fields [OF long_name_run] long_name_run
  by blast

text \<open>
  C4 as stated fails: a request for simulation with an item name of 82 characters is
  answered with a description of 160 characters.
\<close>

theorem simulate_description_exceeds_cap_counterexample:
  "post_generate_item_details example_env long_name_body example_client empty_state
     = (Success long_name_response, state_after_one)
   \<and> model_used long_name_response = str ''simulate''
   \<and> length (description long_name_response) = 160"
  by (simp add: long_name_run long_name_description_length) (simp add: long_name_response_def)

section \<open>What the item-name validator rejects and what it returns\<close>

lemma sre_lower_space: "isspace c \<Longrightarrow> sre_lower c = c"
  by (auto simp: isspace_def sre_lower_def)

lemma sre_lower_forbidden: "forbidden c \<Longrightarrow> sre_lower c = c"
  by (auto simp: forbidden_def sre_lower_def)

lemma fixes_not_space: "x \<in> set (ignorecase_fixes p) \<Longrightarrow> \<not> isspace x"
  by (auto simp: ignorecase_fixes_def isspace_def split: if_splits)

lemma fixes_not_forbidden: "x \<in> set (ignorecase_fixes p) \<Longrightarrow> \<not> forbidden x"
  by (auto simp: ignorecase_fixes_def forbidden_def split: if_splits)

lemma clean_atom_rejects: "clean_atom a \<Longrightarrow> atom_matches a c \<Longrightarrow> \<not> forbidden c"
proof (cases a)
  case (Lit p)
  assume "clean_atom a" and m: "atom_matches a c"
  then have clean: "\<not> forbidden (sre_lower p)" using Lit by simp
  show ?thesis
  proof
    assume f: "forbidden c"
    then have "sre_lower c = c" by (rule sre_lower_forbidden)
    with m Lit have "c = sre_lower p \<or> c \<in> set (ignorecase_fixes (sre_lower p))" by auto
    with f clean fixes_not_forbidden show False by blast
  qed
next
  case AnyChar
  assume "clean_atom a" with AnyChar show ?thesis by simp
next
  case Space
  assume "atom_matches a c"
  with Space have "isspace c" by simp
  then show ?thesis by (auto simp: isspace_def forbidden_def)
qed

lemma solid_piece_rejects:
  assumes "solid_piece pc" and "isspace c"
  shows "\<exists>a. pc = One a \<and> \<not> atom_matches a c"
proof -
  obtain p where pc: "pc = One (Lit p)" and solid: "\<not> isspace (sre_lower p)"
    using assms(1) by (cases pc rule: solid_piece.cases) auto
  have "\<not> atom_matches (Lit p) c"
  proof
    assume m: "atom_matches (Lit p) c"
    have "sre_lower c = c" using assms(2) by (rule sre_lower_space)
    with m have "c = sre_lower p \<or> c \<in> set (ignorecase_fixes (sre_lower p))" by auto
    with assms(2) solid fixes_not_space show False by blast
  qed
  with pc show ?thesis by blast
qed

lemma match_here_star_skip: "match_here ps t \<Longrightarrow> match_here (Star a # ps) t"
  by (cases t) simp_all

lemma match_here_re_search: "match_here p t \<Longrightarrow> re_search p t"
  by (cases t) simp_all

lemma match_here_filter:
  "list_all (\<lambda>pc. clean_atom (atom_of pc)) p \<Longrightarrow> match_here p s
   \<Longrightarrow> match_here p (filter (\<lambda>c. \<not> forbidden c) s)"
proof (induction p s rule: match_here.induct)
  case (1 s)
  then show ?case by simp
next
  case (2 a ps)
  then show ?case by simp
next
  case (3 a ps c s)
  then have "\<not> forbidden c" using clean_atom_rejects [of a c] by simp
  with 3 show ?case by simp
next
  case (4 a ps)
  then show ?case by simp
next
  case (5 a ps c s)
  from "5.prems"(2) consider (skip) "match_here ps (c # s)"
    | (take) "atom_matches a c" "match_here (Star a # ps) s" by auto
  then show ?case
  proof cases
    case skip
    with 5 have "match_here ps (filter (\<lambda>c. \<not> forbidden c) (c # s))" by simp
    then show ?thesis by (rule match_here_star_skip)
  next
    case take
    then have "\<not> forbidden c" using clean_atom_rejects [of a c] "5.prems"(1) by simp
    with 5 take show ?thesis by simp
  qed
next
  case (6 a ps)
  then show ?case by simp
next
  case (7 a ps c s)
  then have "\<not> forbidden c" using clean_atom_rejects [of a c] by simp
  with 7 show ?case by simp
qed

lemma re_search_filter:
  assumes "list_all (\<lambda>pc. clean_atom (atom_of pc)) p"
  shows "re_search p s \<Longrightarrow> re_search p (filter (\<lambda>c. \<not> forbidden c) s)"
proof (induction s)
  case Nil
  then show ?case by simp
next
  case (Cons c s)
  from Cons.prems consider (here) "match_here p (c # s)" | (later) "re_search p s" by auto
  then show ?case
  proof cases
    case here
    then have "match_here p (filter (\<lambda>c. \<not> forbidden c) (c # s))"
      using assms by (intro match_here_filter)
    then show ?thesis by (rule match_here_re_search)
  next
    case later
    then have "re_search p (filter (\<lambda>c. \<not> forbidden c) s)" by (rule Cons.IH)
    then show ?thesis by simp
  qed
qed

lemma re_search_lstrip:
  assumes "\<And>c. isspace c \<Longrightarrow> \<not> atom_matches a c"
  shows "re_search (One a # ps) s \<Longrightarrow> re_search (One a # ps) (dropWhile isspace s)"
proof (induction s)
  case Nil
  then show ?case by simp
next
  case (Cons c s)
  then show ?case using assms by (cases "isspace c") auto
qed

lemma match_here_needs_text: "\<not> match_here (q @ [One b]) []"
proof (induction q)
  case Nil
  then show ?case by simp
next
  case (Cons pc q)
  then show ?case by (cases pc) simp_all
qed

lemma match_here_butlast:
  assumes "\<not> atom_matches b c"
  shows "p = q @ [One b] \<Longrightarrow> match_here p (t @ [c]) \<Longrightarrow> match_here p t"
proof (induction p t arbitrary: q rule: match_here.induct)
  case (1 s)
  then show ?case by simp
next
  case (2 a ps)
  show ?case
  proof (cases q)
    case Nil
    with 2 assms show ?thesis by simp
  next
    case (Cons x q')
    with 2 have "ps = q' @ [One b]" by simp
    then have "\<not> match_here ps []" by (simp add: match_here_needs_text)
    moreover from "2.prems"(2) have "match_here ps []" by simp
    ultimately show ?thesis by blast
  qed
next
  case (3 a ps d s)
  show ?case
  proof (cases q)
    case Nil
    with 3 show ?thesis by simp
  next
    case (Cons x q')
    with 3 have ps: "ps = q' @ [One b]" by simp
    from "3.prems"(2) have "atom_matches a d" "match_here ps (s @ [c])" by simp_all
    with "3.IH" [OF ps] show ?thesis by simp
  qed
next
  case (4 a ps)
  then obtain q' where ps: "ps = q' @ [One b]" by (cases q) auto
  then have none: "\<not> match_here ps []" by (simp add: match_here_needs_text)
  from "4.prems"(2) none have "match_here ps ([] @ [c])" by simp
  with "4.IH" [OF ps] none show ?case by blast
next
  case (5 a ps d s)
  then obtain q' where ps: "ps = q' @ [One b]" by (cases q) auto
  from "5.prems"(2) consider (skip) "match_here ps ((d # s) @ [c])"
    | (take) "atom_matches a d" "match_here (Star a # ps) (s @ [c])" by auto
  then show ?case
  proof cases
    case skip
    with "5.IH"(1) [OF ps] show ?thesis by simp
  next
    case take
    with "5.IH"(2) [OF "5.prems"(1)] show ?thesis by simp
  qed
next
  case (6 a ps)
  then obtain q' where ps: "ps = q' @ [One b]" by (cases q) auto
  then have "\<not> match_here ps []" by (simp add: match_here_needs_text)
  moreover from "6.prems"(2) have "match_here ps []" by simp
  ultimately show ?case by blast
next
  case (7 a ps d s)
  then obtain q' where ps: "ps = q' @ [One b]" by (cases q) auto
  then have star: "Star a # ps = (Star a # q') @ [One b]" by simp
  from "7.prems"(2) have "atom_matches a d" "match_here (Star a # ps) (s @ [c])" by simp_all
  with "7.IH" [OF star] show ?case by simp
qed

lemma re_search_butlast:
  assumes "\<not> atom_matches b c"
  shows "re_search (q @ [One b]) (s @ [c]) \<Longrightarrow> re_search (q @ [One b]) s"
proof (induction s)
  case Nil
  then have "match_here (q @ [One b]) ([] @ [c]) \<or> match_here (q @ [One b]) []" by simp
  then have "match_here (q @ [One b]) []"
    using match_here_butlast [OF assms refl, of q "[]"] by blast
  then show ?case by simp
next
  case (Cons d s)
  from Cons.prems consider (here) "match_here (q @ [One b]) ((d # s) @ [c])"
    | (later) "re_search (q @ [One b]) (s @ [c])" by auto
  then show ?case
  proof cases
    case here
    then have "match_here (q @ [One b]) (d # s)"
      using match_here_butlast [OF assms refl, of q "d # s"] by blast
    then show ?thesis by simp
  next
    case later
    then have "re_search (q @ [One b]) s" by (rule Cons.IH)
    then show ?thesis by simp
  qed
qed

lemma re_search_rstrip:
  assumes "\<And>c. isspace c \<Longrightarrow> \<not> atom_matches b c"
  shows "re_search (q @ [One b]) s
         \<Longrightarrow> re_search (q @ [One b]) (rev (dropWhile isspace (rev s)))"
proof (induction s rule: rev_induct)
  case Nil
  then show ?case by simp
next
  case (snoc c s)
  show ?case
  proof (cases "isspace c")
    case True
    then have "\<not> atom_matches b c" by (rule assms)
    then have "re_search (q @ [One b]) s" using snoc.prems by (rule re_search_butlast)
    then have "re_search (q @ [One b]) (rev (dropWhile isspace (rev s)))" by (rule snoc.IH)
    with True show ?thesis by simp
  next
    case False
    with snoc.prems show ?thesis by simp
  qed
qed

lemma re_search_strip:
  assumes "p \<noteq> []" and "solid_piece (hd p)" and "solid_piece (last p)"
  shows "re_search p s \<Longrightarrow> re_search p (strip s)"
proof -
  assume found: "re_search p s"
  obtain x ps where p1: "p = x # ps" using assms(1) by (cases p) auto
  have "\<exists>a. x = One a \<and> (\<forall>c. isspace c \<longrightarrow> \<not> atom_matches a c)"
    using solid_piece_rejects [of x] assms(2) p1
    by (cases x rule: solid_piece.cases) (auto simp: p1)
  then obtain a where a: "x = One a" "\<And>c. isspace c \<Longrightarrow> \<not> atom_matches a c" by blast
  obtain q y where p2: "p = q @ [y]" using assms(1) by (cases p rule: rev_cases) auto
  have "\<exists>b. y = One b \<and> (\<forall>c. isspace c \<longrightarrow> \<not> atom_matches b c)"
    using solid_piece_rejects [of y] assms(3) p2
    by (cases y rule: solid_piece.cases) (auto simp: p2)
  then obtain b where b: "y = One b" "\<And>c. isspace c \<Longrightarrow> \<not> atom_matches b c" by blast
  have "re_search (One a # ps) (dropWhile isspace s)"
    using a(2) found [unfolded p1 a(1)] by (rule re_search_lstrip)
  then have "re_search (q @ [One b]) (dropWhile isspace s)"
    using p1 p2 a(1) b(1) by simp
  then have "re_search (q @ [One b]) (rev (dropWhile isspace (rev (dropWhile isspace s))))"
    using b(2) by (intro re_search_rstrip)
  then show ?thesis using p2 b(1) by (simp add: strip_def)
qed

lemma re_search_sanitize:
  assumes "survives p" and "re_search p v"
  shows "re_search p (sanitize v)"
proof -
  have "re_search p (strip v)"
    using assms by (intro re_search_strip) (auto simp: survives_def)
  then show ?thesis
    unfolding sanitize_def using assms(1) by (intro re_search_filter) (auto simp: survives_def)
qed

lemma suspicious_patterns_survive:
  "p \<in> set suspicious_patterns \<Longrightarrow> p \<noteq> tag_pattern \<Longrightarrow> survives p"
  by (auto simp: suspicious_patterns_def survives_def lits_def sre_lower_def isspace_def
      forbidden_def)


lemma sanitize_empty: "strip v = [] \<Longrightarrow> sanitize v = []"
  by (simp add: sanitize_def)

lemma script_pattern_listed:
  "lits ''script'' \<in> set suspicious_patterns \<and> lits ''script'' \<noteq> tag_pattern"
  by (simp add: suspicious_patterns_def lits_def tag_pattern_def)

lemma javascript_special_matches: "re_search (lits ''script'') (str ''JavaScript Special'')"
  by (simp add: lits_def str_def sre_lower_def ignorecase_fixes_def)

lemma javascript_special_rejected:
  "validate_item_name (str ''JavaScript Special'')
   = Inl (ValueError ''Invalid characters detected in item name'')"
  by (simp add: validate_item_name_def validate_item_name_with_def
      suspicious_patterns_def lits_def tag_pattern_def sanitize_def strip_def isspace_def
      forbidden_def str_def sre_lower_def ignorecase_fixes_def)

lemma padded_pizza_clean: "sanitize (str ''  Margherita Pizza '') = str ''Margherita Pizza''"
  by (simp add: sanitize_def strip_def isspace_def forbidden_def str_def)

lemma margherita_unsuspicious:
  "\<forall>pattern \<in> set suspicious_patterns. \<not> re_search pattern (str ''Margherita Pizza'')"
  by (simp add: suspicious_patterns_def lits_def tag_pattern_def str_def sre_lower_def
      ignorecase_fixes_def isspace_def)

lemma margherita_length: "str ''Margherita Pizza'' \<noteq> [] \<and> length (str ''Margherita Pizza'') \<le> 100"
  by (simp add: str_def)

text \<open>
  C1 (as amended). Validation fails whenever the input, or its cleaned form, matches a
  pattern of the denylist other than the tag shape. For every input whose cleaned form
  (trimmed, with the four characters removed) is not empty, has at most 100 characters and
  matches no pattern of the denylist, validation succeeds and returns the cleaned form.
  One of the four characters in the input is no reason for failure: it is removed.
\<close>

theorem validate_item_name_cleaned:
  "(p \<in> set suspicious_patterns \<and> p \<noteq> tag_pattern
      \<and> (re_search p v \<or> re_search p (sanitize v))
     \<longrightarrow> (\<exists>e. validate_item_name v = Inl e))
   \<and> (sanitize v \<noteq> [] \<and> length (sanitize v) \<le> 100
      \<and> (\<forall>pattern \<in> set suspicious_patterns. \<not> re_search pattern (sanitize v))
     \<longrightarrow> validate_item_name v = Inr (sanitize v))"
proof (intro conjI impI)
  assume a: "p \<in> set suspicious_patterns \<and> p \<noteq> tag_pattern
      \<and> (re_search p v \<or> re_search p (sanitize v))"
  then have "survives p" by (simp add: suspicious_patterns_survive)
  with a have "re_search p (sanitize v)" using re_search_sanitize by blast
  with a have "list_ex (\<lambda>pattern. re_search pattern (sanitize v)) suspicious_patterns"
    by (auto simp: list_ex_iff)
  then show "\<exists>e. validate_item_name v = Inl e"
    by (simp add: validate_item_name_def validate_item_name_with_def Let_def)
next
  assume b: "sanitize v \<noteq> [] \<and> length (sanitize v) \<le> 100
      \<and> (\<forall>pattern \<in> set suspicious_patterns. \<not> re_search pattern (sanitize v))"
  then have "strip v \<noteq> []" using sanitize_empty by blast
  moreover then have "v \<noteq> []" by (auto simp: strip_def)
  moreover from b have "\<not> list_ex (\<lambda>pattern. re_search pattern (sanitize v)) suspicious_patterns"
    by (simp add: list_ex_iff)
  ultimately show "validate_item_name v = Inr (sanitize v)"
    using b by (simp add: validate_item_name_def validate_item_name_with_def Let_def)
qed

theorem validate_item_name_cleaned_witness:
  "lits ''script'' \<in> set suspicious_patterns \<and> lits ''script'' \<noteq> tag_pattern
   \<and> re_search (lits ''script'') (str ''JavaScript Special'')
   \<and> validate_item_name (str ''JavaScript Special'')
       = Inl (ValueError ''Invalid characters detected in item name'')
   \<and> sanitize (str ''  Margherita Pizza '') \<noteq> []
   \<and> length (sanitize (str ''  Margherita Pizza '')) \<le> 100
   \<and> \<not> list_ex (\<lambda>pattern. re_search pattern (sanitize (str ''  Margherita Pizza '')))
         suspicious_patterns
   \<and> validate_item_name (str ''  Margherita Pizza '') = Inr (str ''Margherita Pizza'')"
  using validate_item_name_cleaned [of "lits ''script''" "str ''JavaScript Special''"]
        validate_item_name_cleaned [of "lits ''script''" "str ''  Margherita Pizza ''"]
        script_pattern_listed javascript_special_matches javascript_special_rejected
        margherita_unsuspicious margherita_length
  by (simp add: padded_pizza_clean list_ex_iff)

text \<open>
  C1 as stated fails: the name \<open>a<b\<close> contains \<open><\<close> and is accepted as \<open>ab\<close>, and the
  name \<open><b>\<close> matches the tag-shape pattern and is accepted as \<open>b\<close>.
\<close>

theorem forbidden_character_accepted_counterexample:
  "60 \<in> set (str ''a<b'') \<and> forbidden 60
   \<and> validate_item_name (str ''a<b'') = Inr (str ''ab'')
   \<and> re_search tag_pattern (str ''<b>'')
   \<and> validate_item_name (str ''<b>'') = Inr (str ''b'')"
  by (simp add: validate_item_name_def validate_item_name_with_def
      suspicious_patterns_def lits_def tag_pattern_def sanitize_def strip_def isspace_def
      forbidden_def str_def sre_lower_def ignorecase_fixes_def)

end
